theory Spec2Isabelle
  imports
    Complex_Main
    "HOL-Library.Multiset"
    "HOL-Library.Char_ord"
    "HOL-Library.List_Lexorder"
begin

section \<open>Data model\<close>

text \<open>
  The three scripts work on pandas data frames. A frame is modelled by its column names, in
  order, and its rows; a row maps a column name to the cell it holds. A cell is missing
  (\<open>NaN\<close>, which also stands for \<open>NaT\<close> and \<open>None\<close>), a text, a float, a timestamp or a
  calendar date.

  A float that is a number is finite or one of the two infinities; a finite float is
  modelled by the real number it stands for. Comparisons of floats are exact and are
  modelled. Arithmetic on floats rounds: the only arithmetic of the scripts, the mean of a
  column, is done by pandas and is left to it here. A timestamp is zone-naive, counted in
  nanoseconds since the epoch; a calendar date is counted in days since the epoch.
\<close>

datatype pyfloat = NegInf | Finite real | PosInf

datatype cell = NaN | Text string | Float pyfloat | Timestamp int | Date int

type_synonym row = "string \<Rightarrow> cell"

record table =
  columns :: "string list"
  rows :: "row list"

datatype error =
    KeyError string
  | IndexError
  | EmptyDataError
  | FileNotFoundError string
  | AttributeError string
  | Raised string

fun fl_le :: "pyfloat \<Rightarrow> pyfloat \<Rightarrow> bool" where
  "fl_le NegInf y = True"
| "fl_le x PosInf = True"
| "fl_le (Finite x) (Finite y) = (x \<le> y)"
| "fl_le x y = False"

subsection \<open>The libraries\<close>

text \<open>
  What pandas, \<open>re\<close> and the string methods of Python compute is not the repository's code.
  The model takes these routines as given, in one record, as the scripts call them:
  \<^item> \<open>to_numeric\<close> is \<open>pd.to_numeric(column, errors="coerce")\<close>: one float or \<open>NaN\<close> per
    cell of the column;
  \<^item> \<open>to_datetime\<close> is \<open>pd.to_datetime(column, errors="coerce")\<close>: one timestamp or \<open>NaT\<close>
    per cell. It works on the column as a whole (the format is taken from its first
    value), and it can raise, as on a column of mixed UTC offsets; \<open>Inl\<close> also stands for
    a result that is not a datetime column, on which the \<open>.dt\<close> of the next line raises;
  \<^item> \<open>str_lower\<close> and \<open>str_strip\<close> are \<open>str.lower\<close> and \<open>str.strip\<close>;
  \<^item> \<open>re_compile\<close> is the regular expression engine behind \<open>Series.str.contains\<close>: a
    pattern compiles to a search over a text, or is rejected with \<open>re.error\<close>;
  \<^item> \<open>sort_rows\<close> and \<open>sort_series\<close> are the sorting routine behind \<open>sort_values\<close>, which
    the scripts call without \<open>kind\<close>: pandas then sorts with its default kind,
    \<open>quicksort\<close>, which its documentation lists as not stable;
  \<^item> \<open>mean\<close> is \<open>Series.mean()\<close> on the floats present in a column, in float arithmetic;
    \<open>None\<close> is \<open>NaN\<close>.
  All that is assumed of them is \<open>library_contract\<close>: a coerced column is as long as the
  column it comes from, and a sorted list is a rearrangement of the input, in order.
\<close>

record library =
  to_numeric :: "cell list \<Rightarrow> pyfloat option list"
  to_datetime :: "cell list \<Rightarrow> error + int option list"
  str_lower :: "string \<Rightarrow> string"
  str_strip :: "string \<Rightarrow> string"
  re_compile :: "string \<Rightarrow> error + (string \<Rightarrow> bool)"
  sort_rows :: "(row \<Rightarrow> row \<Rightarrow> bool) \<Rightarrow> row list \<Rightarrow> row list"
  sort_series ::
    "(string \<times> pyfloat \<Rightarrow> string \<times> pyfloat \<Rightarrow> bool) \<Rightarrow> (string \<times> pyfloat) list
       \<Rightarrow> (string \<times> pyfloat) list"
  mean :: "pyfloat list \<Rightarrow> pyfloat option"

definition sort_contract :: "(('a \<Rightarrow> 'a \<Rightarrow> bool) \<Rightarrow> 'a list \<Rightarrow> 'a list) \<Rightarrow> bool" where
  "sort_contract srt =
     (\<forall>le xs. mset (srt le xs) = mset xs \<and>
        ((\<forall>a b. le a b \<or> le b a) \<and> (\<forall>a b c. le a b \<and> le b c \<longrightarrow> le a c)
           \<longrightarrow> sorted_wrt le (srt le xs)))"

definition library_contract :: "library \<Rightarrow> bool" where
  "library_contract L =
     ((\<forall>col. length (to_numeric L col) = length col) \<and>
      (\<forall>col ts. to_datetime L col = Inr ts \<longrightarrow> length ts = length col) \<and>
      sort_contract (sort_rows L) \<and> sort_contract (sort_series L))"

subsection \<open>Frames\<close>

definition notna :: "cell \<Rightarrow> bool" where
  "notna c = (c \<noteq> NaN)"

definition float_cell :: "pyfloat option \<Rightarrow> cell" where
  "float_cell v = (case v of Some x \<Rightarrow> Float x | None \<Rightarrow> NaN)"

definition time_cell :: "int option \<Rightarrow> cell" where
  "time_cell v = (case v of Some t \<Rightarrow> Timestamp t | None \<Rightarrow> NaN)"

definition column :: "string \<Rightarrow> table \<Rightarrow> cell list" where
  \<comment> \<open>\<open>df[c]\<close> of a column the frame has.\<close>
  "column c t = map (\<lambda>r. r c) (rows t)"

definition set_column :: "string \<Rightarrow> cell list \<Rightarrow> table \<Rightarrow> table" where
  \<comment> \<open>\<open>df[c] = values\<close>: a new column is appended, an existing one is replaced in place.\<close>
  "set_column c vals t =
     \<lparr>columns = (if c \<in> set (columns t) then columns t else columns t @ [c]),
      rows = map (\<lambda>(r, v). r(c := v)) (zip (rows t) vals)\<rparr>"

definition dropna :: "string list \<Rightarrow> table \<Rightarrow> error + table" where
  \<comment> \<open>\<open>df.dropna(subset=...)\<close>: raises \<open>KeyError\<close> on a column the frame does not have.\<close>
  "dropna cols t =
     (case filter (\<lambda>c. c \<notin> set (columns t)) cols of
        c # _ \<Rightarrow> Inl (KeyError c)
      | [] \<Rightarrow> Inr (t\<lparr>rows := filter (\<lambda>r. \<forall>c \<in> set cols. notna (r c)) (rows t)\<rparr>))"

definition ns_per_day :: int where
  "ns_per_day = 86400 * 1000000000"

definition dt_date :: "cell \<Rightarrow> cell" where
  \<comment> \<open>\<open>.dt.date\<close>: the calendar date of a timestamp, \<open>NaT\<close> for a missing one.\<close>
  "dt_date c = (case c of Timestamp t \<Rightarrow> Date (t div ns_per_day) | _ \<Rightarrow> NaN)"

definition fillna :: "string \<Rightarrow> cell \<Rightarrow> cell" where
  "fillna s c = (case c of NaN \<Rightarrow> Text s | _ \<Rightarrow> c)"

definition is_text :: "cell \<Rightarrow> bool" where
  "is_text c = (case c of Text s \<Rightarrow> True | _ \<Rightarrow> False)"

definition str_accessor :: "cell list \<Rightarrow> bool" where
  \<comment> \<open>\<open>.str\<close> needs a column of strings: one with no rows, or one that holds a text. On
      a column of numbers only it raises \<open>AttributeError\<close>.\<close>
  "str_accessor col = (col = [] \<or> list_ex is_text col)"

definition lower_cell :: "library \<Rightarrow> cell \<Rightarrow> cell" where
  \<comment> \<open>\<open>.str.lower()\<close> on one cell: an element that is not a text gives a missing cell.\<close>
  "lower_cell L c = (case c of Text s \<Rightarrow> Text (str_lower L s) | _ \<Rightarrow> NaN)"

section \<open>The dashboard: \<open>deployment.py\<close>\<close>

subsection \<open>\<open>load_data\<close>\<close>

definition empty_frame_columns :: "string list" where
  "empty_frame_columns =
     [''id'', ''platform'', ''url'', ''title_or_text'', ''source'', ''published'',
      ''vader_sentiment'', ''scores'', ''llm_sentiment'', ''llm_confidence'',
      ''llm_summary'', ''saved_at'']"

definition read_csv :: "(string \<rightharpoonup> table) \<Rightarrow> string \<Rightarrow> error + table" where
  \<comment> \<open>The file system maps the path of a regular file to the frame its text parses to.
      A file with no header line makes \<open>pd.read_csv\<close> raise.\<close>
  "read_csv fs path =
     (case fs path of
        None \<Rightarrow> Inl (FileNotFoundError path)
      | Some csv \<Rightarrow> if columns csv = [] then Inl EmptyDataError else Inr csv)"

definition coerce_published :: "library \<Rightarrow> table \<Rightarrow> error + table" where
  \<comment> \<open>Lines 25 and 26.\<close>
  "coerce_published L df =
     (if ''published'' \<in> set (columns df)
      then case to_datetime L (column ''published'' df) of
             Inl e \<Rightarrow> Inl e
           | Inr ts \<Rightarrow> Inr (set_column ''published'' (map time_cell ts) df)
      else Inr df)"

definition load_data :: "library \<Rightarrow> (string \<rightharpoonup> table) \<Rightarrow> string \<Rightarrow> error + table" where
  "load_data L fs path =
     (if fs path = None then Inr \<lparr>columns = empty_frame_columns, rows = []\<rparr>
      else
        case read_csv fs path of
          Inl e \<Rightarrow> Inl e
        | Inr df0 \<Rightarrow>
            let df1 = (if ''scores'' \<in> set (columns df0)
                       then set_column ''scores''
                              (map float_cell (to_numeric L (column ''scores'' df0))) df0
                       else df0)
            in
              (case coerce_published L df1 of
                 Inl e \<Rightarrow> Inl e
               | Inr df2 \<Rightarrow>
                   if ''published'' \<notin> set (columns df2) then Inl (KeyError ''published'')
                   else
                     let df3 = set_column ''date'' (map dt_date (column ''published'' df2)) df2
                     in
                       if ''title_or_text'' \<notin> set (columns df3)
                       then Inl (KeyError ''title_or_text'')
                       else
                         let filled = map (fillna []) (column ''title_or_text'' df3) in
                           if \<not> str_accessor filled
                           then Inl (AttributeError ''Can only use .str accessor with string values!'')
                           else dropna [''published'', ''scores'']
                                  (set_column ''keyword_hint'' (map (lower_cell L) filled) df3)))"

subsection \<open>\<open>sentiment_label\<close>\<close>

definition sentiment_label :: "real \<Rightarrow> string" where
  "sentiment_label x =
     (if x \<ge> 0.05 then ''Positive''
      else if x \<le> - 0.05 then ''Negative''
      else ''Neutral'')"

definition sentiment_label_of :: "pyfloat \<Rightarrow> string" where
  \<comment> \<open>The same function on a float that may be infinite: the infinities pass the same
      two comparisons.\<close>
  "sentiment_label_of v =
     (case v of Finite x \<Rightarrow> sentiment_label x | PosInf \<Rightarrow> ''Positive'' | NegInf \<Rightarrow> ''Negative'')"

subsection \<open>Sorting a frame\<close>

definition cell_le :: "cell \<Rightarrow> cell \<Rightarrow> bool" where
  \<comment> \<open>\<open><=\<close> on two cells of one column; a comparison with a missing cell is false.\<close>
  "cell_le a b =
     (case (a, b) of
        (Timestamp s, Timestamp t) \<Rightarrow> s \<le> t
      | (Date s, Date t) \<Rightarrow> s \<le> t
      | (Float x, Float y) \<Rightarrow> fl_le x y
      | (Text x, Text y) \<Rightarrow> x \<le> y
      | _ \<Rightarrow> False)"

definition cell_key :: "cell \<Rightarrow> real" where
  \<comment> \<open>The position of a present cell in the order of its column. The scripts sort frames
      by \<open>published\<close> only, a column of timestamps.\<close>
  "cell_key c =
     (case c of Timestamp t \<Rightarrow> real_of_int t | Date d \<Rightarrow> real_of_int d | _ \<Rightarrow> 0)"

definition sort_values ::
  "((row \<Rightarrow> row \<Rightarrow> bool) \<Rightarrow> row list \<Rightarrow> row list) \<Rightarrow> string \<Rightarrow> bool \<Rightarrow> table \<Rightarrow> table" where
  \<comment> \<open>Rows whose sort key is missing go last, in their original order.\<close>
  "sort_values srt by ascending t =
     t\<lparr>rows :=
          srt (if ascending then (\<lambda>a b. cell_key (a by) \<le> cell_key (b by))
               else (\<lambda>a b. cell_key (b by) \<le> cell_key (a by)))
            (filter (\<lambda>r. notna (r by)) (rows t))
          @ filter (\<lambda>r. \<not> notna (r by)) (rows t)\<rparr>"

subsection \<open>Sidebar filters\<close>

datatype date_input = Dates "int list" | OneDate int

definition isin :: "cell \<Rightarrow> string list \<Rightarrow> bool" where
  "isin c xs = (case c of Text s \<Rightarrow> s \<in> set xs | _ \<Rightarrow> False)"

definition float_le :: "cell \<Rightarrow> real \<Rightarrow> bool" where
  "float_le c y = (case c of Float x \<Rightarrow> fl_le x (Finite y) | _ \<Rightarrow> False)"

definition float_ge :: "cell \<Rightarrow> real \<Rightarrow> bool" where
  "float_ge c y = (case c of Float x \<Rightarrow> fl_le (Finite y) x | _ \<Rightarrow> False)"

definition timestamps :: "string \<Rightarrow> table \<Rightarrow> int list" where
  "timestamps c t = concat (map (\<lambda>r. case r c of Timestamp x \<Rightarrow> [x] | _ \<Rightarrow> []) (rows t))"

definition min_date :: "table \<Rightarrow> cell" where
  \<comment> \<open>\<open>df["published"].min().date()\<close>; \<open>NaT\<close> when no timestamp is present.\<close>
  "min_date df =
     (case timestamps ''published'' df of
        [] \<Rightarrow> NaN
      | x # xs \<Rightarrow> dt_date (Timestamp (fold min xs x)))"

definition max_date :: "table \<Rightarrow> cell" where
  "max_date df =
     (case timestamps ''published'' df of
        [] \<Rightarrow> NaN
      | x # xs \<Rightarrow> dt_date (Timestamp (fold max xs x)))"

definition range_start :: "date_input \<Rightarrow> table \<Rightarrow> error + cell" where
  \<comment> \<open>\<open>date_range[0] if isinstance(date_range, (list, tuple)) else min_date\<close>\<close>
  "range_start date_range df =
     (case date_range of
        Dates [] \<Rightarrow> Inl IndexError
      | Dates (d # _) \<Rightarrow> Inr (Date d)
      | OneDate _ \<Rightarrow> Inr (min_date df))"

definition range_end :: "date_input \<Rightarrow> table \<Rightarrow> error + cell" where
  \<comment> \<open>\<open>date_range[-1] if isinstance(date_range, (list, tuple)) else max_date\<close>\<close>
  "range_end date_range df =
     (case date_range of
        Dates [] \<Rightarrow> Inl IndexError
      | Dates (d # ds) \<Rightarrow> Inr (Date (last (d # ds)))
      | OneDate _ \<Rightarrow> Inr (max_date df))"

definition keyword_of :: "library \<Rightarrow> string \<Rightarrow> string" where
  \<comment> \<open>\<open>st.sidebar.text_input(...).strip().lower()\<close>\<close>
  "keyword_of L typed = str_lower L (str_strip L typed)"

definition str_contains :: "(string \<Rightarrow> bool) \<Rightarrow> cell \<Rightarrow> bool" where
  \<comment> \<open>One element of \<open>.str.contains(pat)\<close>; a missing hint does not pass the mask.\<close>
  "str_contains found c = (case c of Text s \<Rightarrow> found s | _ \<Rightarrow> False)"

definition keyword_mask :: "library \<Rightarrow> string \<Rightarrow> error + (row \<Rightarrow> bool)" where
  \<comment> \<open>\<open>if keyword: mask &= df["keyword_hint"].str.contains(keyword)\<close>. The call leaves
      \<open>regex\<close> at its default, \<open>True\<close>: the keyword is compiled as a regular expression.\<close>
  "keyword_mask L keyword =
     (if keyword \<noteq> []
      then case re_compile L keyword of
             Inl e \<Rightarrow> Inl e
           | Inr found \<Rightarrow> Inr (\<lambda>r. str_contains found (r ''keyword_hint''))
      else Inr (\<lambda>r. True))"

definition mask ::
  "library \<Rightarrow> date_input \<Rightarrow> string \<Rightarrow> string list \<Rightarrow> bool \<Rightarrow> table
     \<Rightarrow> error + (row \<Rightarrow> bool)" where
  "mask L date_range keyword sources show_only_alerts df =
     (case range_start date_range df of
        Inl e \<Rightarrow> Inl e
      | Inr lo \<Rightarrow>
          (case range_end date_range df of
             Inl e \<Rightarrow> Inl e
           | Inr hi \<Rightarrow>
               (case keyword_mask L keyword of
                  Inl e \<Rightarrow> Inl e
                | Inr has_keyword \<Rightarrow>
                    Inr (\<lambda>r. cell_le lo (r ''date'') \<and> cell_le (r ''date'') hi \<and>
                             isin (r ''source'') sources \<and> has_keyword r \<and>
                             (if show_only_alerts
                              then float_le (r ''scores'') (- 0.5) \<or> float_ge (r ''scores'') 0.5
                              else True)))))"

definition fdf ::
  "library \<Rightarrow> date_input \<Rightarrow> string \<Rightarrow> string list \<Rightarrow> bool \<Rightarrow> table \<Rightarrow> error + table" where
  \<comment> \<open>\<open>fdf = df.loc[mask].copy().sort_values("published")\<close>\<close>
  "fdf L date_range keyword sources show_only_alerts df =
     (case mask L date_range keyword sources show_only_alerts df of
        Inl e \<Rightarrow> Inl e
      | Inr keep \<Rightarrow>
          Inr (sort_values (sort_rows L) ''published'' True (df\<lparr>rows := filter keep (rows df)\<rparr>)))"

subsection \<open>Aggregates\<close>

definition floats :: "string \<Rightarrow> row list \<Rightarrow> pyfloat list" where
  \<comment> \<open>The values of a float column that are present.\<close>
  "floats c rs = concat (map (\<lambda>r. case r c of Float x \<Rightarrow> [x] | _ \<Rightarrow> []) rs)"

definition groupby_mean ::
  "library \<Rightarrow> (row \<Rightarrow> 'k::linorder option) \<Rightarrow> string \<Rightarrow> row list \<Rightarrow> ('k \<times> cell) list" where
  \<comment> \<open>\<open>groupby(key)[c].mean()\<close>: one entry per key present, keys ascending; rows with a
      missing key belong to no group.\<close>
  "groupby_mean L key c rs =
     map (\<lambda>k. (k, float_cell (mean L (floats c (filter (\<lambda>r. key r = Some k) rs)))))
       (sort (remdups (List.map_filter key rs)))"

definition avg_score :: "library \<Rightarrow> table \<Rightarrow> cell" where
  \<comment> \<open>\<open>fdf["scores"].mean() if not fdf.empty else np.nan\<close>\<close>
  "avg_score L view =
     (if rows view \<noteq> [] then float_cell (mean L (floats ''scores'' (rows view))) else NaN)"

definition positive_articles :: "table \<Rightarrow> nat" where
  "positive_articles view = length (filter (\<lambda>r. float_ge (r ''scores'') 0.05) (rows view))"

definition neg_alerts :: "table \<Rightarrow> nat" where
  "neg_alerts view = length (filter (\<lambda>r. float_le (r ''scores'') (- 0.5)) (rows view))"

definition pos_alerts :: "table \<Rightarrow> nat" where
  "pos_alerts view = length (filter (\<lambda>r. float_ge (r ''scores'') 0.5) (rows view))"

definition avg_label :: "cell \<Rightarrow> string" where
  \<comment> \<open>The delta of the first metric:
      \<open>sentiment_label(avg_score) if not np.isnan(avg_score) else ""\<close>\<close>
  "avg_label avg = (case avg of Float x \<Rightarrow> sentiment_label_of x | _ \<Rightarrow> [])"

definition published_day :: "row \<Rightarrow> int option" where
  "published_day r = (case r ''published'' of Timestamp t \<Rightarrow> Some (t div ns_per_day) | _ \<Rightarrow> None)"

definition daily_resampled :: "library \<Rightarrow> table \<Rightarrow> (int \<times> cell) list" where
  \<comment> \<open>\<open>fdf.set_index("published").resample("D")["scores"].mean().dropna()\<close>: the days
      without a value are dropped, which leaves the days that have one.\<close>
  "daily_resampled L view =
     filter (\<lambda>(d, m). notna m) (groupby_mean L published_day ''scores'' (rows view))"

definition source_key :: "row \<Rightarrow> string option" where
  "source_key r = (case r ''source'' of Text s \<Rightarrow> Some s | _ \<Rightarrow> None)"

definition series_sort_desc :: "library \<Rightarrow> (string \<times> cell) list \<Rightarrow> (string \<times> cell) list" where
  \<comment> \<open>\<open>Series.sort_values(ascending=False)\<close>: the values present in descending order,
      the missing ones last.\<close>
  "series_sort_desc L ser =
     map (\<lambda>(k, x). (k, Float x))
       (sort_series L (\<lambda>a b. fl_le (snd b) (snd a))
          (concat (map (\<lambda>(k, c). case c of Float x \<Rightarrow> [(k, x)] | _ \<Rightarrow> []) ser)))
     @ filter (\<lambda>(k, c). \<not> notna c) ser"

definition src :: "library \<Rightarrow> table \<Rightarrow> (string \<times> cell) list" where
  \<comment> \<open>\<open>fdf.groupby("source", dropna=True)["scores"].mean().sort_values(ascending=False).head(10)\<close>\<close>
  "src L view = take 10 (series_sort_desc L (groupby_mean L source_key ''scores'' (rows view)))"

subsection \<open>Alerts, feed and download\<close>

definition select :: "string list \<Rightarrow> table \<Rightarrow> error + table" where
  \<comment> \<open>A frame indexed by a list of columns: \<open>KeyError\<close> when one is not in the frame.\<close>
  "select cols t =
     (case filter (\<lambda>c. c \<notin> set (columns t)) cols of
        c # _ \<Rightarrow> Inl (KeyError c)
      | [] \<Rightarrow> Inr \<lparr>columns = cols,
                   rows = map (\<lambda>r c. if c \<in> set cols then r c else NaN) (rows t)\<rparr>)"

definition alerts :: "library \<Rightarrow> table \<Rightarrow> error + table" where
  "alerts L view =
     select [''published'', ''source'', ''title_or_text'', ''scores'', ''url'']
       (sort_values (sort_rows L) ''published'' False
          (view\<lparr>rows := filter (\<lambda>r. float_le (r ''scores'') (- 0.5) \<or> float_ge (r ''scores'') 0.5)
                           (rows view)\<rparr>))"

definition feed :: "library \<Rightarrow> table \<Rightarrow> error + table" where
  "feed L view =
     (case select [''published'', ''source'', ''title_or_text'', ''scores'', ''vader_sentiment'', ''url'']
             (sort_values (sort_rows L) ''published'' False view) of
        Inl e \<Rightarrow> Inl e
      | Inr t \<Rightarrow> Inr (t\<lparr>rows := take 30 (rows t)\<rparr>))"

definition to_csv :: "table \<Rightarrow> string list \<times> cell list list" where
  \<comment> \<open>\<open>to_csv(index=False)\<close>: the header, then one line of cells per row, in the frame's
      order. How a cell is printed is left to pandas.\<close>
  "to_csv t = (columns t, map (\<lambda>r. map r (columns t)) (rows t))"

subsection \<open>The script as a whole\<close>

definition CSV_FILE :: string where
  "CSV_FILE = ''aggregated_data.csv''"

record dashboard_outputs =
  filtered :: table
  kpi_avg_score :: cell
  kpi_avg_label :: string
  kpi_positive_articles :: nat
  kpi_pos_alerts :: nat
  kpi_neg_alerts :: nat
  chart_daily :: "(int \<times> cell) list"
  chart_sources :: "(string \<times> cell) list"
  table_alerts :: table
  news_feed :: table
  download :: "string list \<times> cell list list"

datatype run = Stopped | Rendered dashboard_outputs

definition outputs :: "library \<Rightarrow> table \<Rightarrow> error + dashboard_outputs" where
  \<comment> \<open>Lines 76 to 174: everything the page shows is computed from \<open>fdf\<close>.\<close>
  "outputs L view =
     (case alerts L view of
        Inl e \<Rightarrow> Inl e
      | Inr a \<Rightarrow>
          (case feed L view of
             Inl e \<Rightarrow> Inl e
           | Inr f \<Rightarrow>
               Inr \<lparr>filtered = view,
                    kpi_avg_score = avg_score L view,
                    kpi_avg_label = avg_label (avg_score L view),
                    kpi_positive_articles = positive_articles view,
                    kpi_pos_alerts = pos_alerts view,
                    kpi_neg_alerts = neg_alerts view,
                    chart_daily = daily_resampled L view,
                    chart_sources = src L view,
                    table_alerts = a,
                    news_feed = f,
                    download = to_csv view\<rparr>))"

definition dashboard ::
  "library \<Rightarrow> (string \<rightharpoonup> table) \<Rightarrow> date_input \<Rightarrow> string \<Rightarrow> string list \<Rightarrow> bool
     \<Rightarrow> error + run" where
  \<comment> \<open>One run of the script: the file system and the sidebar's widget values are its
      inputs. An empty frame stops the run at line 45; line 53 reads the source column.\<close>
  "dashboard L fs date_range typed sources show_only_alerts =
     (case load_data L fs CSV_FILE of
        Inl e \<Rightarrow> Inl e
      | Inr df \<Rightarrow>
          if rows df = [] then Inr Stopped
          else if ''source'' \<notin> set (columns df) then Inl (KeyError ''source'')
          else
            (case fdf L date_range (keyword_of L typed) sources show_only_alerts df of
               Inl e \<Rightarrow> Inl e
             | Inr view \<Rightarrow>
                 (case outputs L view of
                    Inl e \<Rightarrow> Inl e
                  | Inr out \<Rightarrow> Inr (Rendered out))))"

section \<open>The forecast: \<open>plot_sentiment.py\<close>\<close>

text \<open>
  Prophet is a library outside the repository. Its three calls are parameters of the model:
  \<open>fit\<close> takes the daily frame and gives a fitted model or raises, \<open>make_future_dataframe\<close>
  and \<open>predict\<close> likewise. The script has no \<open>try\<close>: an exception of any call ends the run.
\<close>

definition saved_day :: "row \<Rightarrow> int option" where
  "saved_day r = (case dt_date (r ''saved_at'') of Date d \<Rightarrow> Some d | _ \<Rightarrow> None)"

definition daily :: "library \<Rightarrow> (string \<rightharpoonup> table) \<Rightarrow> string \<Rightarrow> error + (int \<times> cell) list" where
  \<comment> \<open>Lines 6 to 17: the frame with the columns \<open>ds\<close> and \<open>y\<close>.\<close>
  "daily L fs path =
     (case read_csv fs path of
        Inl e \<Rightarrow> Inl e
      | Inr df0 \<Rightarrow>
          if ''saved_at'' \<notin> set (columns df0) then Inl (KeyError ''saved_at'')
          else
            (case to_datetime L (column ''saved_at'' df0) of
               Inl e \<Rightarrow> Inl e
             | Inr ts \<Rightarrow>
                 let df1 = set_column ''saved_at'' (map time_cell ts) df0 in
                   if ''scores'' \<notin> set (columns df1) then Inl (KeyError ''scores'')
                   else
                     let df2 = set_column ''scores''
                                 (map float_cell (to_numeric L (column ''scores'' df1))) df1
                     in (case dropna [''saved_at'', ''scores''] df2 of
                           Inl e \<Rightarrow> Inl e
                         | Inr df \<Rightarrow> Inr (groupby_mean L saved_day ''scores'' (rows df)))))"


section \<open>What the specification says, and sample inputs\<close>

subsection \<open>Reference definitions\<close>

definition normalized :: "library \<Rightarrow> row \<Rightarrow> pyfloat option \<Rightarrow> int option \<Rightarrow> row" where
  \<comment> \<open>A row as the Normalizer hands it on: its score and timestamp as the library coerced
      them, and the two derived columns.\<close>
  "normalized L r n t =
     r(''scores'' := float_cell n,
       ''published'' := time_cell t,
       ''date'' := dt_date (time_cell t),
       ''keyword_hint'' := lower_cell L (fillna [] (r ''title_or_text'')))"

definition parsed_rows :: "library \<Rightarrow> table \<Rightarrow> int option list \<Rightarrow> row list" where
  \<comment> \<open>The rows of the file whose \<open>scores\<close> parsed as a number and whose \<open>published\<close>
      parsed as a timestamp (\<open>ts\<close> is the coerced \<open>published\<close> column), in file order.\<close>
  "parsed_rows L csv ts =
     map (\<lambda>(r, n, t). normalized L r n t)
       (filter (\<lambda>(r, n, t). n \<noteq> None \<and> t \<noteq> None)
          (zip (rows csv) (zip (to_numeric L (column ''scores'' csv)) ts)))"

fun starts_with :: "string \<Rightarrow> string \<Rightarrow> bool" where
  "starts_with s [] = True"
| "starts_with [] (p # ps) = False"
| "starts_with (x # xs) (p # ps) = (x = p \<and> starts_with xs ps)"

fun has_substring :: "string \<Rightarrow> string \<Rightarrow> bool" where
  "has_substring [] p = starts_with [] p"
| "has_substring (x # xs) p = (starts_with (x # xs) p \<or> has_substring xs p)"

definition keyword_spec :: "string \<Rightarrow> row \<Rightarrow> bool" where
  \<comment> \<open>The keyword predicate in the specification's words: an empty keyword keeps every
      item, any other keeps the items whose hint contains it literally.\<close>
  "keyword_spec keyword r =
     (if keyword = [] then True
      else case r ''keyword_hint'' of Text hint \<Rightarrow> has_substring hint keyword | _ \<Rightarrow> False)"

definition day_scores ::
  "int option list \<Rightarrow> pyfloat option list \<Rightarrow> (int \<times> pyfloat) list" where
  \<comment> \<open>The day and the score of every row that has both a timestamp and a score, in file
      order.\<close>
  "day_scores ts ns =
     concat (map (\<lambda>(t, n). case t of
                              None \<Rightarrow> []
                            | Some t' \<Rightarrow> (case n of None \<Rightarrow> [] | Some x \<Rightarrow> [(t' div ns_per_day, x)]))
               (zip ts ns))"

definition dated :: "row \<Rightarrow> pyfloat option \<Rightarrow> int option \<Rightarrow> row" where
  \<comment> \<open>A row as the forecast script groups it: its score and its \<open>saved_at\<close> timestamp as
      the library coerced them.\<close>
  "dated r n t = r(''saved_at'' := time_cell t, ''scores'' := float_cell n)"

definition daily_aggregate ::
  "library \<Rightarrow> (int \<times> pyfloat) list \<Rightarrow> (int \<times> cell) list" where
  \<comment> \<open>The daily aggregate of a list of dated scores: one entry per day, days ascending,
      each with the mean of that day's scores.\<close>
  "daily_aggregate L ds =
     map (\<lambda>d. (d, float_cell (mean L (map snd (filter (\<lambda>p. fst p = d) ds)))))
       (sort (remdups (map fst ds)))"





subsection \<open>A sample library\<close>

text \<open>
  To run the model, the library routines are instantiated with small stand-ins: parsers
  that know the texts of the sample files, an ASCII \<open>lower\<close> and \<open>strip\<close>, a matcher for
  patterns of ordinary characters and the dot, two insertion sorts, and a mean that is
  exact where no rounding is needed. The two sorts differ only in the order they give to
  equal keys: the first keeps it, the second reverses it.
\<close>

definition lower_char :: "char \<Rightarrow> char" where
  "lower_char c =
     (if 65 \<le> (of_char c :: nat) \<and> (of_char c :: nat) \<le> 90
      then char_of (of_char c + (32 :: nat)) else c)"

definition ascii_lower :: "string \<Rightarrow> string" where
  "ascii_lower s = map lower_char s"

definition is_space :: "char \<Rightarrow> bool" where
  "is_space c =
     (let n = (of_char c :: nat) in (9 \<le> n \<and> n \<le> 13) \<or> (28 \<le> n \<and> n \<le> 32))"

definition ascii_strip :: "string \<Rightarrow> string" where
  "ascii_strip s = rev (dropWhile is_space (rev (dropWhile is_space s)))"

datatype rx = Lit char | AnyChar

definition is_special :: "char \<Rightarrow> bool" where
  \<comment> \<open>The special characters of Python's \<open>re\<close> syntax.\<close>
  "is_special c = (c \<in> set ''.^$*+?{}[]|()'' \<or> c = CHR 0x5C)"

fun compile_items :: "string \<Rightarrow> rx list option" where
  "compile_items [] = Some []"
| "compile_items (c # cs) =
     (if c \<noteq> CHR ''.'' \<and> is_special c then None
      else case compile_items cs of
             None \<Rightarrow> None
           | Some items \<Rightarrow> Some ((if c = CHR ''.'' then AnyChar else Lit c) # items))"

fun match_here :: "rx list \<Rightarrow> string \<Rightarrow> bool" where
  "match_here [] s = True"
| "match_here (p # ps) [] = False"
| "match_here (Lit c # ps) (x # xs) = (c = x \<and> match_here ps xs)"
| "match_here (AnyChar # ps) (x # xs) = (x \<noteq> CHR 0x0A \<and> match_here ps xs)"

fun re_search :: "rx list \<Rightarrow> string \<Rightarrow> bool" where
  "re_search ps [] = match_here ps []"
| "re_search ps (x # xs) = (match_here ps (x # xs) \<or> re_search ps xs)"

definition sample_re_compile :: "string \<Rightarrow> error + (string \<Rightarrow> bool)" where
  "sample_re_compile pat =
     (case compile_items pat of
        None \<Rightarrow> Inl (Raised ''pattern outside the sample matcher'')
      | Some ps \<Rightarrow> Inr (re_search ps))"

fun insort_by :: "('a \<Rightarrow> 'a \<Rightarrow> bool) \<Rightarrow> 'a \<Rightarrow> 'a list \<Rightarrow> 'a list" where
  "insort_by le x [] = [x]"
| "insort_by le x (y # ys) = (if le x y then x # y # ys else y # insort_by le x ys)"

definition insertion_sort :: "('a \<Rightarrow> 'a \<Rightarrow> bool) \<Rightarrow> 'a list \<Rightarrow> 'a list" where
  "insertion_sort le xs = foldr (insort_by le) xs []"


definition finite_values :: "pyfloat list \<Rightarrow> real list" where
  "finite_values xs = concat (map (\<lambda>v. case v of Finite x \<Rightarrow> [x] | _ \<Rightarrow> []) xs)"

definition sample_mean :: "pyfloat list \<Rightarrow> pyfloat option" where
  "sample_mean xs =
     (if xs = [] then None
      else if length (finite_values xs) = length xs
      then Some (Finite (sum_list (finite_values xs) / real (length xs)))
      else None)"

definition sample_num :: "cell \<Rightarrow> pyfloat option" where
  "sample_num c =
     (case c of
        Text s \<Rightarrow> map_of [(''0.6'', Finite 0.6), (''-0.6'', Finite (- 0.6)),
                           (''0.1'', Finite 0.1)] s
      | Float x \<Rightarrow> Some x
      | _ \<Rightarrow> None)"

definition sample_ts :: "cell \<Rightarrow> int option" where
  \<comment> \<open>Midnight of 1, 2 and 5 January 2024, and noon of 1 January 2024.\<close>
  "sample_ts c =
     (case c of
        Text s \<Rightarrow> map_of [(''2024-01-01'', 19723 * ns_per_day),
                           (''2024-01-02'', 19724 * ns_per_day),
                           (''2024-01-05'', 19727 * ns_per_day),
                           (''2024-01-01 12:00'', 19723 * ns_per_day + 43200 * 1000000000)] s
      | _ \<Rightarrow> None)"

definition sample_library :: library where
  "sample_library =
     \<lparr>to_numeric = map sample_num,
      to_datetime = (\<lambda>col. Inr (map sample_ts col)),
      str_lower = ascii_lower,
      str_strip = ascii_strip,
      re_compile = sample_re_compile,
      sort_rows = insertion_sort,
      sort_series = insertion_sort,
      mean = sample_mean\<rparr>"


subsection \<open>Sample files\<close>

definition mk_row :: "(string \<times> cell) list \<Rightarrow> row" where
  "mk_row kvs c = (case map_of kvs c of Some v \<Rightarrow> v | None \<Rightarrow> NaN)"

definition sample_row :: "string \<Rightarrow> string \<Rightarrow> string \<Rightarrow> string \<Rightarrow> string \<Rightarrow> string \<Rightarrow> row" where
  "sample_row ident source title published saved score =
     mk_row [(''id'', Text ident), (''source'', Text source), (''title_or_text'', Text title),
             (''published'', Text published), (''saved_at'', Text saved),
             (''scores'', Text score), (''url'', Text ''http://example.org''),
             (''platform'', Text ''news''), (''vader_sentiment'', Text ''pos'')]"

definition item1 :: row where
  "item1 = sample_row ''1'' ''wire'' ''Rates Rise'' ''2024-01-02'' ''2024-01-05'' ''0.6''"

definition item2 :: row where
  "item2 = sample_row ''2'' ''blog'' ''abc'' ''2024-01-01 12:00'' ''2024-01-05'' ''-0.6''"

definition item3 :: row where
  "item3 = sample_row ''3'' ''wire'' ''no score'' ''2024-01-01'' ''2024-01-05'' ''n/a''"

definition item4 :: row where
  "item4 = sample_row ''4'' ''blog'' ''no date'' ''soon'' ''2024-01-05'' ''0.1''"

definition sample_csv :: table where
  "sample_csv = \<lparr>columns = empty_frame_columns, rows = [item1, item2, item3, item4]\<rparr>"

definition sample_df :: table where
  \<comment> \<open>The sample file as \<open>load_data\<close> returns it.\<close>
  "sample_df =
     \<lparr>columns = empty_frame_columns @ [''date'', ''keyword_hint''],
      rows = [normalized sample_library item1 (Some (Finite 0.6)) (Some (19724 * ns_per_day)),
              normalized sample_library item2 (Some (Finite (- 0.6)))
                (Some (19723 * ns_per_day + 43200 * 1000000000))]\<rparr>"

definition sample_view :: table where
  \<comment> \<open>The sample frame in the order of \<open>published\<close>.\<close>
  "sample_view =
     \<lparr>columns = empty_frame_columns @ [''date'', ''keyword_hint''],
      rows = [normalized sample_library item2 (Some (Finite (- 0.6)))
                (Some (19723 * ns_per_day + 43200 * 1000000000)),
              normalized sample_library item1 (Some (Finite 0.6)) (Some (19724 * ns_per_day))]\<rparr>"

definition sample_fs :: "string \<rightharpoonup> table" where
  "sample_fs = [CSV_FILE \<mapsto> sample_csv]"







section \<open>Properties\<close>

subsection \<open>The sample sorting routines meet the contract\<close>

lemma mset_insort_by: "mset (insort_by le x xs) = add_mset x (mset xs)"
  by (induction xs) auto

lemma set_insort_by: "set (insort_by le x xs) = insert x (set xs)"
  by (induction xs) auto

lemma sorted_insort_by:
  assumes tot: "\<And>a b. le a b \<or> le b a" and tr: "\<And>a b c. le a b \<Longrightarrow> le b c \<Longrightarrow> le a c"
  shows "sorted_wrt le xs \<Longrightarrow> sorted_wrt le (insort_by le x xs)"
proof (induction xs)
  case Nil
  then show ?case by simp
next
  case (Cons y ys)
  show ?case
  proof (cases "le x y")
    case True
    have "\<forall>z \<in> set ys. le x z" using Cons.prems True tr by auto
    with True Cons.prems show ?thesis by simp
  next
    case False
    then have "le y x" using tot by blast
    with False Cons show ?thesis by (auto simp: set_insort_by)
  qed
qed

lemma mset_insertion_sort: "mset (insertion_sort le xs) = mset xs"
  by (induction xs) (simp_all add: insertion_sort_def mset_insort_by)



lemma sorted_insertion_sort:
  assumes tot: "\<And>a b. le a b \<or> le b a" and tr: "\<And>a b c. le a b \<Longrightarrow> le b c \<Longrightarrow> le a c"
  shows "sorted_wrt le (insertion_sort le xs)"
  by (induction xs) (simp_all add: insertion_sort_def sorted_insort_by [OF tot tr])

lemma insertion_sort_contract: "sort_contract insertion_sort"
  unfolding sort_contract_def
proof (intro allI conjI impI)
  fix le :: "'a \<Rightarrow> 'a \<Rightarrow> bool" and xs
  show "mset (insertion_sort le xs) = mset xs" by (rule mset_insertion_sort)
  assume "(\<forall>a b. le a b \<or> le b a) \<and> (\<forall>a b c. le a b \<and> le b c \<longrightarrow> le a c)"
  then show "sorted_wrt le (insertion_sort le xs)"
    by (intro sorted_insertion_sort) blast+
qed


lemma sample_library_fields:
  "to_numeric sample_library = map sample_num"
  "to_datetime sample_library = (\<lambda>col. Inr (map sample_ts col))"
  "str_lower sample_library = ascii_lower"
  "str_strip sample_library = ascii_strip"
  "re_compile sample_library = sample_re_compile"
  "sort_rows sample_library = insertion_sort"
  "sort_series sample_library = insertion_sort"
  "mean sample_library = sample_mean"
  by (simp_all add: sample_library_def)


lemma sample_library_contract: "library_contract sample_library"
  by (simp add: library_contract_def sample_library_fields insertion_sort_contract)


lemma sort_contract_mset:
  assumes "sort_contract srt"
  shows "mset (srt le xs) = mset xs"
  using assms unfolding sort_contract_def by blast

lemma sort_contract_sorted_wrt:
  assumes "sort_contract srt"
    and "\<forall>a b. le a b \<or> le b a"
    and "\<forall>a b c. le a b \<and> le b c \<longrightarrow> le a c"
  shows "sorted_wrt le (srt le xs)"
  using assms unfolding sort_contract_def by blast

lemma sort_contract_set:
  assumes "sort_contract srt"
  shows "set (srt le xs) = set xs"
  using sort_contract_mset [OF assms, of le xs] by (rule mset_eq_setD)

lemma sort_contract_length:
  assumes "sort_contract srt"
  shows "length (srt le xs) = length xs"
  using sort_contract_mset [OF assms, of le xs] by (rule mset_eq_length)

lemma sort_contract_sorted_key:
  fixes key :: "'a \<Rightarrow> real"
  assumes "sort_contract srt"
  shows "sorted (map key (srt (\<lambda>a b. key a \<le> key b) xs))"
proof -
  have "sorted_wrt (\<lambda>a b. key a \<le> key b) (srt (\<lambda>a b. key a \<le> key b) xs)"
    by (rule sort_contract_sorted_wrt [OF assms]) auto
  then show ?thesis by (simp add: sorted_map)
qed

lemma library_contractD:
  assumes "library_contract L"
  shows "length (to_numeric L col) = length col"
    and "to_datetime L col = Inr ts \<Longrightarrow> length ts = length col"
    and "sort_contract (sort_rows L)"
    and "sort_contract (sort_series L)"
  using assms unfolding library_contract_def by blast+

subsection \<open>\<open>sentiment_label\<close>\<close>

text \<open>
  C1. \<open>sentiment_label\<close> is a total function of the score: every score of at least 0.05 is
  labelled Positive, every score of at most -0.05 is labelled Negative, both boundaries
  included, and every score strictly between the two is labelled Neutral.
\<close>

theorem sentiment_label_thresholds:
  "(x \<ge> 0.05 \<longrightarrow> sentiment_label x = ''Positive'') \<and>
   (x \<le> - 0.05 \<longrightarrow> sentiment_label x = ''Negative'') \<and>
   (- 0.05 < x \<and> x < 0.05 \<longrightarrow> sentiment_label x = ''Neutral'')"
  by (simp add: sentiment_label_def)

theorem sentiment_label_thresholds_witness:
  "sentiment_label 0.05 = ''Positive'' \<and> sentiment_label (- 0.05) = ''Negative'' \<and>
   sentiment_label 0 = ''Neutral'' \<and> sentiment_label 0.049 = ''Neutral'' \<and>
   sentiment_label 1 = ''Positive'' \<and> sentiment_label (- 1) = ''Negative''"
  using sentiment_label_thresholds [of "0.05"] sentiment_label_thresholds [of "- 0.05"]
    sentiment_label_thresholds [of 0] sentiment_label_thresholds [of "0.049"]
    sentiment_label_thresholds [of 1] sentiment_label_thresholds [of "- 1"]
  by simp

subsection \<open>Assigning columns\<close>

lemma length_set_column:
  "length vals = length (rows t) \<Longrightarrow> length (rows (set_column c vals t)) = length (rows t)"
  by (simp add: set_column_def)

lemma nth_set_column:
  "length vals = length (rows t) \<Longrightarrow> i < length (rows t) \<Longrightarrow>
   rows (set_column c vals t) ! i = (rows t ! i)(c := vals ! i)"
  by (simp add: set_column_def)

lemma columns_set_column:
  "columns (set_column c vals t) = (if c \<in> set (columns t) then columns t else columns t @ [c])"
  by (simp add: set_column_def)

lemma column_set_column_other:
  assumes "length vals = length (rows t)" and "c' \<noteq> c"
  shows "column c' (set_column c vals t) = column c' t"
  unfolding column_def
  by (rule nth_equalityI)
    (simp_all add: length_set_column [OF assms(1)] nth_set_column [OF assms(1)] assms(2))

lemma column_set_column_same:
  assumes "length vals = length (rows t)"
  shows "column c (set_column c vals t) = vals"
  unfolding column_def
  by (rule nth_equalityI)
    (simp_all add: length_set_column [OF assms] nth_set_column [OF assms] assms)

lemma length_column: "length (column c t) = length (rows t)"
  by (simp add: column_def)

lemma nth_column: "i < length (rows t) \<Longrightarrow> column c t ! i = (rows t ! i) c"
  by (simp add: column_def)

subsection \<open>\<open>load_data\<close>\<close>

lemma zip3_nth:
  assumes "length ns = length rs" and "length ts = length rs"
  shows "zip rs (zip ns ts) = map (\<lambda>i. (rs ! i, ns ! i, ts ! i)) [0..<length rs]"
  by (rule nth_equalityI) (simp_all add: assms)

lemma load_data_normal_form:
  assumes lc: "library_contract L"
    and csv: "fs path = Some csv"
    and cols: "''published'' \<in> set (columns csv)" "''scores'' \<in> set (columns csv)"
      "''title_or_text'' \<in> set (columns csv)"
  shows "load_data L fs path =
           (case to_datetime L (column ''published'' csv) of
              Inl e \<Rightarrow> Inl e
            | Inr ts \<Rightarrow>
                if \<not> str_accessor (map (fillna []) (column ''title_or_text'' csv))
                then Inl (AttributeError ''Can only use .str accessor with string values!'')
                else Inr \<lparr>columns =
                            (if ''date'' \<in> set (columns csv) then columns csv
                             else columns csv @ [''date''])
                            @ (if ''keyword_hint'' \<in> set (columns csv) then []
                               else [''keyword_hint'']),
                          rows = parsed_rows L csv ts\<rparr>)"
proof -
  define n where "n = length (rows csv)"
  define ns where "ns = to_numeric L (column ''scores'' csv)"
  define df1 where "df1 = set_column ''scores'' (map float_cell ns) csv"
  have len_ns: "length ns = n"
    unfolding ns_def n_def using library_contractD(1) [OF lc] by (simp add: length_column)
  have l1: "length (map float_cell ns) = length (rows csv)"
    using len_ns by (simp add: n_def)
  have n1: "length (rows df1) = n"
    unfolding df1_def using length_set_column [OF l1] by (simp add: n_def)
  have pub1: "column ''published'' df1 = column ''published'' csv"
    unfolding df1_def by (rule column_set_column_other [OF l1]) simp
  have c1: "columns df1 = columns csv"
    unfolding df1_def using cols by (simp add: columns_set_column)
  have rd: "read_csv fs path = Inr csv"
    using csv cols(1) by (auto simp: read_csv_def)
  have start: "load_data L fs path =
      (case coerce_published L df1 of
         Inl e \<Rightarrow> Inl e
       | Inr df2 \<Rightarrow>
           if ''published'' \<notin> set (columns df2) then Inl (KeyError ''published'')
           else
             let df3 = set_column ''date'' (map dt_date (column ''published'' df2)) df2
             in
               if ''title_or_text'' \<notin> set (columns df3)
               then Inl (KeyError ''title_or_text'')
               else
                 let filled = map (fillna []) (column ''title_or_text'' df3) in
                   if \<not> str_accessor filled
                   then Inl (AttributeError ''Can only use .str accessor with string values!'')
                   else dropna [''published'', ''scores'']
                          (set_column ''keyword_hint'' (map (lower_cell L) filled) df3))"
    unfolding load_data_def using csv cols(2)
    by (simp add: rd df1_def ns_def Let_def)
  show ?thesis
  proof (cases "to_datetime L (column ''published'' csv)")
    case (Inl e)
    then have "coerce_published L df1 = Inl e"
      unfolding coerce_published_def using cols(1) c1 by (simp add: pub1)
    then show ?thesis unfolding start by (simp add: Inl)
  next
    case (Inr ts)
    define df2 where "df2 = set_column ''published'' (map time_cell ts) df1"
    define df3 where "df3 = set_column ''date'' (map dt_date (column ''published'' df2)) df2"
    define filled where "filled = map (fillna []) (column ''title_or_text'' df3)"
    define df4 where "df4 = set_column ''keyword_hint'' (map (lower_cell L) filled) df3"
    have len_ts: "length ts = n"
      unfolding n_def using library_contractD(2) [OF lc Inr] by (simp add: length_column)
    have l2: "length (map time_cell ts) = length (rows df1)"
      using len_ts n1 by simp
    have n2: "length (rows df2) = n"
      unfolding df2_def using length_set_column [OF l2] n1 by simp
    have l3: "length (map dt_date (column ''published'' df2)) = length (rows df2)"
      by (simp add: length_column)
    have n3: "length (rows df3) = n"
      unfolding df3_def using length_set_column [OF l3] n2 by simp
    have l4: "length (map (lower_cell L) filled) = length (rows df3)"
      by (simp add: filled_def length_column)
    have n4: "length (rows df4) = n"
      unfolding df4_def using length_set_column [OF l4] n3 by simp
    have pub2: "column ''published'' df2 = map time_cell ts"
      unfolding df2_def by (rule column_set_column_same [OF l2])
    have t1: "column ''title_or_text'' df1 = column ''title_or_text'' csv"
      unfolding df1_def by (rule column_set_column_other [OF l1]) simp
    have t2: "column ''title_or_text'' df2 = column ''title_or_text'' df1"
      unfolding df2_def by (rule column_set_column_other [OF l2]) simp
    have t3: "column ''title_or_text'' df3 = column ''title_or_text'' df2"
      unfolding df3_def by (rule column_set_column_other [OF l3]) simp
    have title3: "column ''title_or_text'' df3 = column ''title_or_text'' csv"
      by (simp only: t3 t2 t1)
    have c2: "columns df2 = columns csv"
      unfolding df2_def using cols c1 by (simp add: columns_set_column)
    have c3: "columns df3 = (if ''date'' \<in> set (columns csv) then columns csv
                             else columns csv @ [''date''])"
      unfolding df3_def using c2 by (simp add: columns_set_column)
    have c4: "columns df4 =
                (if ''date'' \<in> set (columns csv) then columns csv
                 else columns csv @ [''date''])
                @ (if ''keyword_hint'' \<in> set (columns csv) then [] else [''keyword_hint''])"
      unfolding df4_def using c3 by (simp add: columns_set_column)
    have row4: "rows df4 ! i = normalized L (rows csv ! i) (ns ! i) (ts ! i)" if i: "i < n" for i
    proof -
      have a: "rows df1 ! i = (rows csv ! i)(''scores'' := float_cell (ns ! i))"
        unfolding df1_def using nth_set_column [OF l1, of i] i len_ns by (simp add: n_def)
      have b: "rows df2 ! i = (rows df1 ! i)(''published'' := time_cell (ts ! i))"
        unfolding df2_def using nth_set_column [OF l2, of i] i n1 len_ts by simp
      have c: "rows df3 ! i = (rows df2 ! i)(''date'' := dt_date (time_cell (ts ! i)))"
        unfolding df3_def using nth_set_column [OF l3, of i] i n2 len_ts by (simp add: pub2)
      have d: "rows df4 ! i
                 = (rows df3 ! i)(''keyword_hint'' :=
                      lower_cell L (fillna [] ((rows csv ! i) ''title_or_text'')))"
        unfolding df4_def using nth_set_column [OF l4, of i] i n3
        by (simp add: filled_def title3 length_column nth_column n_def)
      show ?thesis
        unfolding d c b a normalized_def by simp
    qed
    have rows4: "rows df4 = map (\<lambda>(r, n, t). normalized L r n t) (zip (rows csv) (zip ns ts))"
      unfolding zip3_nth [OF len_ns [unfolded n_def] len_ts [unfolded n_def]]
      by (rule nth_equalityI) (simp_all add: n4 row4 n_def)
    have p1: "notna (normalized L r m t ''published'') = (t \<noteq> None)" for r m t
      by (auto simp: normalized_def notna_def time_cell_def split: option.splits)
    have p2: "notna (normalized L r m t ''scores'') = (m \<noteq> None)" for r m t
      by (auto simp: normalized_def notna_def float_cell_def split: option.splits)
    have kept: "filter (\<lambda>r. \<forall>c \<in> set [''published'', ''scores'']. notna (r c)) (rows df4)
                  = parsed_rows L csv ts"
      unfolding rows4 parsed_rows_def ns_def [symmetric] filter_map comp_def
      by (rule arg_cong [where f = "map (\<lambda>(r, n, t). normalized L r n t)"],
          rule filter_cong [OF refl]) (auto simp: p1 p2)
    have in4: "''published'' \<in> set (columns df4)" "''scores'' \<in> set (columns df4)"
      unfolding c4 using cols by auto
    have drop: "dropna [''published'', ''scores''] df4
                  = Inr \<lparr>columns = columns df4, rows = parsed_rows L csv ts\<rparr>"
      using in4 kept by (simp add: dropna_def)
    have co: "coerce_published L df1 = Inr df2"
      unfolding coerce_published_def df2_def using cols(1) c1 Inr by (simp add: pub1)
    have in3: "''title_or_text'' \<in> set (columns df3)" "''published'' \<in> set (columns df2)"
      unfolding c3 c2 using cols by auto
    have "load_data L fs path =
            (if \<not> str_accessor filled
             then Inl (AttributeError ''Can only use .str accessor with string values!'')
             else dropna [''published'', ''scores''] df4)"
      unfolding start co using in3
      by (simp add: Let_def df3_def [symmetric] filled_def [symmetric] df4_def [symmetric])
    then show ?thesis
      unfolding drop c4 by (simp add: Inr filled_def title3)
  qed
qed

lemma load_data_needs_columns:
  assumes "load_data L fs path = Inr out" and "fs path = Some csv"
  shows "''published'' \<in> set (columns csv) \<and> ''scores'' \<in> set (columns csv) \<and>
         ''title_or_text'' \<in> set (columns csv)"
proof -
  have rd: "read_csv fs path = Inr csv \<or> (\<exists>e. read_csv fs path = Inl e)"
    using assms(2) by (simp add: read_csv_def)
  have p: "''published'' \<in> set (columns csv)"
    using assms rd
    by (auto simp: load_data_def read_csv_def coerce_published_def columns_set_column Let_def
        split: if_splits sum.splits)
  have t: "''title_or_text'' \<in> set (columns csv)"
    using assms rd
    by (auto simp: load_data_def read_csv_def coerce_published_def columns_set_column Let_def
        split: if_splits sum.splits)
  have s: "''scores'' \<in> set (columns csv)"
    using assms rd
    by (auto simp: load_data_def read_csv_def coerce_published_def columns_set_column Let_def
        dropna_def split: if_splits sum.splits list.splits)
  from p t s show ?thesis by simp
qed


lemma parsed_rows_typed:
  assumes "r \<in> set (parsed_rows L csv ts)"
  shows "(\<exists>t. r ''published'' = Timestamp t) \<and> (\<exists>x. r ''scores'' = Float x)"
  using assms
  by (auto simp: parsed_rows_def normalized_def time_cell_def float_cell_def)

lemma load_data_rows:
  assumes lc: "library_contract L" and csv: "fs path = Some csv"
    and out: "load_data L fs path = Inr out"
  shows "\<exists>ts. to_datetime L (column ''published'' csv) = Inr ts \<and>
           rows out = parsed_rows L csv ts"
proof -
  from load_data_needs_columns [of L fs path out csv, OF out csv] have cols:
    "''published'' \<in> set (columns csv)" "''scores'' \<in> set (columns csv)"
    "''title_or_text'' \<in> set (columns csv)"
    by simp_all
  from out show ?thesis
    unfolding load_data_normal_form [of L fs path csv, OF lc csv cols]
    by (auto split: sum.splits if_splits)
qed

lemma item_cells:
  "item1 ''published'' = Text ''2024-01-02''" "item1 ''scores'' = Text ''0.6''"
  "item1 ''source'' = Text ''wire''" "item1 ''title_or_text'' = Text ''Rates Rise''"
  "item1 ''saved_at'' = Text ''2024-01-05''" "item1 ''id'' = Text ''1''"
  "item2 ''published'' = Text ''2024-01-01 12:00''" "item2 ''scores'' = Text ''-0.6''"
  "item2 ''source'' = Text ''blog''" "item2 ''title_or_text'' = Text ''abc''"
  "item2 ''saved_at'' = Text ''2024-01-05''" "item2 ''id'' = Text ''2''"
  "item3 ''published'' = Text ''2024-01-01''" "item3 ''scores'' = Text ''n/a''"
  "item3 ''saved_at'' = Text ''2024-01-05''" "item3 ''title_or_text'' = Text ''no score''"
  "item4 ''published'' = Text ''soon''" "item4 ''scores'' = Text ''0.1''"
  "item4 ''saved_at'' = Text ''2024-01-05''" "item4 ''title_or_text'' = Text ''no date''"
  by (simp_all add: item1_def item2_def item3_def item4_def sample_row_def mk_row_def)

lemma sample_parsers:
  "sample_num (Text ''0.6'') = Some (Finite 0.6)"
  "sample_num (Text ''-0.6'') = Some (Finite (- 0.6))"
  "sample_num (Text ''0.1'') = Some (Finite 0.1)" "sample_num (Text ''n/a'') = None"
  "sample_ts (Text ''2024-01-02'') = Some (19724 * ns_per_day)"
  "sample_ts (Text ''2024-01-01'') = Some (19723 * ns_per_day)"
  "sample_ts (Text ''2024-01-05'') = Some (19727 * ns_per_day)"
  "sample_ts (Text ''2024-01-01 12:00'') = Some (19723 * ns_per_day + 43200 * 1000000000)"
  "sample_ts (Text ''soon'') = None"
  by (simp_all add: sample_num_def sample_ts_def)

lemma sample_columns:
  "column ''published'' sample_csv
     = [Text ''2024-01-02'', Text ''2024-01-01 12:00'', Text ''2024-01-01'', Text ''soon'']"
  "column ''scores'' sample_csv = [Text ''0.6'', Text ''-0.6'', Text ''n/a'', Text ''0.1'']"
  "column ''saved_at'' sample_csv
     = [Text ''2024-01-05'', Text ''2024-01-05'', Text ''2024-01-05'', Text ''2024-01-05'']"
  "column ''title_or_text'' sample_csv
     = [Text ''Rates Rise'', Text ''abc'', Text ''no score'', Text ''no date'']"
  by (simp_all add: column_def sample_csv_def item_cells)

lemma sample_parsed_rows:
  "parsed_rows sample_library sample_csv (map sample_ts (column ''published'' sample_csv))
     = rows sample_df"
  unfolding parsed_rows_def sample_library_fields sample_columns
  by (simp add: sample_parsers sample_csv_def sample_df_def)

lemma sample_csv_facts:
  "sample_fs CSV_FILE = Some sample_csv"
  "''published'' \<in> set (columns sample_csv)" "''scores'' \<in> set (columns sample_csv)"
  "''title_or_text'' \<in> set (columns sample_csv)" "''saved_at'' \<in> set (columns sample_csv)"
  "to_datetime sample_library (column ''published'' sample_csv)
     = Inr (map sample_ts (column ''published'' sample_csv))"
  "str_accessor (map (fillna []) (column ''title_or_text'' sample_csv))"
  "columns sample_csv = empty_frame_columns"
  unfolding sample_columns
  by (simp_all add: sample_fs_def sample_csv_def empty_frame_columns_def sample_library_fields
      str_accessor_def fillna_def is_text_def)



text \<open>
  C7, as the code has it. When the file is absent, \<open>load_data\<close> raises nothing and returns
  a frame with no rows and exactly the twelve columns of the input table. The derived columns
  \<open>date\<close> and \<open>keyword_hint\<close> are not among them.
\<close>

theorem load_data_absent_file:
  assumes "fs path = None"
  shows "\<exists>out. load_data L fs path = Inr out \<and> rows out = [] \<and>
           columns out =
             [''id'', ''platform'', ''url'', ''title_or_text'', ''source'', ''published'',
              ''vader_sentiment'', ''scores'', ''llm_sentiment'', ''llm_confidence'',
              ''llm_summary'', ''saved_at'']"
  using assms by (simp add: load_data_def empty_frame_columns_def)

theorem load_data_absent_file_witness:
  "\<exists>out. load_data sample_library Map.empty CSV_FILE = Inr out \<and> rows out = [] \<and>
           columns out =
             [''id'', ''platform'', ''url'', ''title_or_text'', ''source'', ''published'',
              ''vader_sentiment'', ''scores'', ''llm_sentiment'', ''llm_confidence'',
              ''llm_summary'', ''saved_at'']"
  using load_data_absent_file [of Map.empty CSV_FILE sample_library] by simp

text \<open>
  C7 as stated fails: the empty frame of an absent file does not carry the derived columns.
\<close>

theorem load_data_absent_file_lacks_derived_columns:
  "\<not> (\<exists>out. load_data sample_library Map.empty CSV_FILE = Inr out \<and> rows out = [] \<and>
         set (empty_frame_columns @ [''date'', ''keyword_hint'']) \<subseteq> set (columns out))"
  by (simp add: load_data_def empty_frame_columns_def)

subsection \<open>What every run of the pipeline preserves\<close>

lemma load_data_typed:
  assumes lc: "library_contract L" and out: "load_data L fs path = Inr df"
  shows "\<forall>r \<in> set (rows df). (\<exists>t. r ''published'' = Timestamp t) \<and> (\<exists>x. r ''scores'' = Float x)"
proof (cases "fs path")
  case None
  with out show ?thesis by (auto simp: load_data_def)
next
  case (Some csv)
  from load_data_rows [of L fs path csv df, OF lc Some out] obtain ts where
    "rows df = parsed_rows L csv ts"
    by blast
  then show ?thesis using parsed_rows_typed by auto
qed

lemma fdf_rows:
  assumes "fdf L date_range keyword sources show_only_alerts df = Inr view"
  shows "\<exists>keep. columns view = columns df \<and>
           rows view =
             sort_rows L (\<lambda>a b. cell_key (a ''published'') \<le> cell_key (b ''published''))
               (filter (\<lambda>r. notna (r ''published'')) (filter keep (rows df)))
             @ filter (\<lambda>r. \<not> notna (r ''published'')) (filter keep (rows df))"
  using assms by (auto simp: fdf_def sort_values_def split: sum.splits)

lemma fdf_subset:
  assumes "sort_contract (sort_rows L)"
    and "fdf L date_range keyword sources show_only_alerts df = Inr view"
  shows "set (rows view) \<subseteq> set (rows df)"
  using fdf_rows [OF assms(2)] sort_contract_set [OF assms(1)] by auto

lemma fdf_sorted:
  assumes c: "sort_contract (sort_rows L)"
    and f: "fdf L date_range keyword sources show_only_alerts df = Inr view"
    and typed: "\<forall>r \<in> set (rows df). \<exists>t. r ''published'' = Timestamp t"
  shows "\<exists>ts. map (\<lambda>r. r ''published'') (rows view) = map Timestamp ts \<and> sorted ts"
proof -
  from fdf_rows [OF f] obtain keep where
    rs: "rows view =
           sort_rows L (\<lambda>a b. cell_key (a ''published'') \<le> cell_key (b ''published''))
             (filter (\<lambda>r. notna (r ''published'')) (filter keep (rows df)))
           @ filter (\<lambda>r. \<not> notna (r ''published'')) (filter keep (rows df))"
    by blast
  have none: "filter (\<lambda>r. \<not> notna (r ''published'')) (filter keep (rows df)) = []"
    using typed by (auto simp: filter_empty_conv notna_def)
  let ?key = "\<lambda>r. cell_key (r ''published'')"
  let ?ts = "map (\<lambda>r. case r ''published'' of Timestamp t \<Rightarrow> t | _ \<Rightarrow> 0) (rows view)"
  have sorted_key: "sorted (map ?key (rows view))"
    unfolding rs none using sort_contract_sorted_key [OF c, of ?key] by simp
  have all: "\<forall>r \<in> set (rows view). \<exists>t. r ''published'' = Timestamp t"
    using fdf_subset [OF c f] typed by blast
  have cells: "map (\<lambda>r. r ''published'') (rows view) = map Timestamp ?ts"
    using all by (auto split: cell.splits)
  have "map ?key (rows view) = map real_of_int ?ts"
    using all by (auto simp: cell_key_def split: cell.splits)
  with sorted_key have "sorted (map real_of_int ?ts)" by simp
  then have "sorted ?ts"
    by (simp only: sorted_map) (simp add: sorted_map)
  with cells show ?thesis by blast
qed

lemma outputs_fields:
  assumes "outputs L view = Inr out"
  shows "filtered out = view \<and> kpi_avg_score out = avg_score L view \<and>
         kpi_avg_label out = avg_label (avg_score L view) \<and> download out = to_csv view \<and>
         chart_sources out = src L view \<and> chart_daily out = daily_resampled L view"
  using assms by (auto simp: outputs_def split: sum.splits)

lemma dashboard_stages:
  assumes "dashboard L fs date_range typed sources show_only_alerts = Inr (Rendered out)"
  shows "\<exists>df. load_data L fs CSV_FILE = Inr df \<and> rows df \<noteq> [] \<and>
           fdf L date_range (keyword_of L typed) sources show_only_alerts df
             = Inr (filtered out) \<and>
           outputs L (filtered out) = Inr out"
proof -
  from assms obtain df view where
    df: "load_data L fs CSV_FILE = Inr df" "rows df \<noteq> []"
    and view: "fdf L date_range (keyword_of L typed) sources show_only_alerts df = Inr view"
    and out: "outputs L view = Inr out"
    by (auto simp: dashboard_def split: sum.splits if_splits)
  from outputs_fields [OF out] have "filtered out = view" by simp
  with df view out show ?thesis by auto
qed

lemma outputs_renders:
  assumes "set [''published'', ''source'', ''title_or_text'', ''scores'', ''url'',
                ''vader_sentiment''] \<subseteq> set (columns view)"
  shows "\<exists>out. outputs L view = Inr out"
  using assms
  by (simp add: outputs_def alerts_def feed_def select_def sort_values_def)

subsection \<open>The sample file through the pipeline\<close>

lemma normalized_cells:
  "normalized L r n t ''published'' = time_cell t"
  "normalized L r n t ''date'' = dt_date (time_cell t)"
  "normalized L r n t ''scores'' = float_cell n"
  "normalized L r n t ''source'' = r ''source''"
  "normalized L r n t ''keyword_hint'' = lower_cell L (fillna [] (r ''title_or_text''))"
  by (simp_all add: normalized_def)

lemma sample_days:
  "dt_date (time_cell (Some (19724 * ns_per_day))) = Date 19724"
  "dt_date (time_cell (Some (19723 * ns_per_day + 43200 * 1000000000))) = Date 19723"
  "dt_date (time_cell (Some (19727 * ns_per_day))) = Date 19727"
  by (simp_all add: dt_date_def time_cell_def ns_per_day_def)

lemma lower_samples:
  "ascii_lower ''Rates Rise'' = ''rates rise''" "ascii_lower ''abc'' = ''abc''"
  "ascii_lower ''A.C'' = ''a.c''" "ascii_lower [] = []"
  by code_simp+

lemma strip_samples:
  "ascii_strip [] = []" "ascii_strip ''A.C '' = ''A.C''"
  by code_simp+

lemma sample_hints:
  "lower_cell sample_library (fillna [] (item1 ''title_or_text'')) = Text ''rates rise''"
  "lower_cell sample_library (fillna [] (item2 ''title_or_text'')) = Text ''abc''"
  by (simp_all add: item_cells lower_cell_def fillna_def sample_library_fields lower_samples)

lemma sample_load_data: "load_data sample_library sample_fs CSV_FILE = Inr sample_df"
proof -
  have "load_data sample_library sample_fs CSV_FILE =
          Inr \<lparr>columns = empty_frame_columns @ [''date''] @ [''keyword_hint''],
               rows = parsed_rows sample_library sample_csv
                        (map sample_ts (column ''published'' sample_csv))\<rparr>"
    unfolding load_data_normal_form [of sample_library sample_fs CSV_FILE sample_csv,
        OF sample_library_contract sample_csv_facts(1-4)] sample_csv_facts(6)
    using sample_csv_facts(7)
    by (simp add: sample_csv_facts(8) empty_frame_columns_def)
  then show ?thesis
    unfolding sample_parsed_rows by (simp add: sample_df_def)
qed

lemma sample_fdf:
  "fdf sample_library (Dates [19723, 19724]) [] [''wire'', ''blog''] False sample_df
     = Inr sample_view"
  by (simp add: fdf_def mask_def range_start_def range_end_def keyword_mask_def
      sample_df_def sample_view_def normalized_cells sample_days item_cells cell_le_def isin_def
      sort_values_def sample_library_fields insertion_sort_def notna_def cell_key_def
      time_cell_def dt_date_def ns_per_day_def)

lemma sample_keywords:
  "keyword_of sample_library [] = []" "keyword_of sample_library ''A.C '' = ''a.c''"
  by (simp_all add: keyword_of_def sample_library_fields strip_samples lower_samples)

lemma sample_dashboard:
  "\<exists>out. dashboard sample_library sample_fs (Dates [19723, 19724]) [] [''wire'', ''blog''] False
     = Inr (Rendered out)"
proof -
  have cols: "set [''published'', ''source'', ''title_or_text'', ''scores'', ''url'',
                   ''vader_sentiment''] \<subseteq> set (columns sample_view)"
    by (simp add: sample_view_def empty_frame_columns_def)
  from outputs_renders [OF cols, of sample_library] obtain out where
    out: "outputs sample_library sample_view = Inr out"
    by blast
  have ne: "rows sample_df \<noteq> []" "''source'' \<in> set (columns sample_df)"
    by (simp_all add: sample_df_def empty_frame_columns_def)
  show ?thesis
    by (simp add: dashboard_def sample_load_data sample_keywords sample_fdf out ne)
qed

text \<open>
  C10. In every run of the dashboard that renders, the filtered view is in non-decreasing
  order of \<open>published\<close>; every output of the page is computed from that view, and the
  lines of the downloaded table are its rows in that order, so the \<open>published\<close> column of
  the download is non-decreasing too. The keyword is matched by whatever the regular
  expression engine of the library makes of it.
\<close>

theorem filtered_view_sorted_by_published:
  assumes "library_contract L"
    and "dashboard L fs date_range typed sources show_only_alerts = Inr (Rendered out)"
  shows "\<exists>ts. map (\<lambda>r. r ''published'') (rows (filtered out)) = map Timestamp ts \<and> sorted ts \<and>
           outputs L (filtered out) = Inr out \<and>
           fst (download out) = columns (filtered out) \<and>
           (\<forall>k < length (columns (filtered out)).
              columns (filtered out) ! k = ''published'' \<longrightarrow>
              map (\<lambda>line. line ! k) (snd (download out)) = map Timestamp ts)"
proof -
  from dashboard_stages [OF assms(2)] obtain df where
    df: "load_data L fs CSV_FILE = Inr df"
    and view: "fdf L date_range (keyword_of L typed) sources show_only_alerts df
                 = Inr (filtered out)"
    and out: "outputs L (filtered out) = Inr out"
    by blast
  have "\<forall>r \<in> set (rows df). \<exists>t. r ''published'' = Timestamp t"
    using load_data_typed [OF assms(1) df] by blast
  from fdf_sorted [OF library_contractD(3) [OF assms(1)] view this] obtain ts where
    ts: "map (\<lambda>r. r ''published'') (rows (filtered out)) = map Timestamp ts" "sorted ts"
    by blast
  have csv: "download out = to_csv (filtered out)"
    using outputs_fields [OF out] by simp
  have "map (\<lambda>line. line ! k) (snd (download out)) = map Timestamp ts"
    if "k < length (columns (filtered out))" "columns (filtered out) ! k = ''published''" for k
    using that ts(1) by (simp add: csv to_csv_def comp_def)
  with ts out csv show ?thesis by (auto simp: to_csv_def)
qed

theorem filtered_view_sorted_by_published_witness:
  "\<exists>out. dashboard sample_library sample_fs (Dates [19723, 19724]) [] [''wire'', ''blog''] False
       = Inr (Rendered out) \<and>
     filtered out = sample_view \<and>
     map (\<lambda>r. r ''published'') (rows (filtered out))
       = map Timestamp [19723 * ns_per_day + 43200 * 1000000000, 19724 * ns_per_day] \<and>
     sorted [19723 * ns_per_day + 43200 * 1000000000, 19724 * ns_per_day] \<and>
     map (\<lambda>line. line ! 5) (snd (download out))
       = map Timestamp [19723 * ns_per_day + 43200 * 1000000000, 19724 * ns_per_day]"
proof -
  from sample_dashboard obtain out where
    run: "dashboard sample_library sample_fs (Dates [19723, 19724]) [] [''wire'', ''blog''] False
            = Inr (Rendered out)"
    by blast
  from filtered_view_sorted_by_published [OF sample_library_contract run] obtain ts where
    ts: "map (\<lambda>r. r ''published'') (rows (filtered out)) = map Timestamp ts" "sorted ts"
    and csv: "\<forall>k < length (columns (filtered out)).
                columns (filtered out) ! k = ''published'' \<longrightarrow>
                map (\<lambda>line. line ! k) (snd (download out)) = map Timestamp ts"
    by blast
  from dashboard_stages [OF run] have view: "filtered out = sample_view"
    by (simp add: sample_load_data sample_keywords sample_fdf)
  have pub: "map (\<lambda>r. r ''published'') (rows sample_view)
               = map Timestamp [19723 * ns_per_day + 43200 * 1000000000, 19724 * ns_per_day]"
    by (simp add: sample_view_def normalized_cells time_cell_def)
  from ts(1) have eq: "ts = [19723 * ns_per_day + 43200 * 1000000000, 19724 * ns_per_day]"
    unfolding view pub by (auto simp: Cons_eq_map_conv)
  have k: "5 < length (columns sample_view)" "columns sample_view ! 5 = ''published''"
    by (simp_all add: sample_view_def empty_frame_columns_def)
  from csv k have "map (\<lambda>line. line ! 5) (snd (download out)) = map Timestamp ts"
    unfolding view by blast
  with run view ts eq pub show ?thesis by auto
qed

subsection \<open>The keyword filter\<close>

lemma fdf_set:
  assumes "sort_contract (sort_rows L)"
    and "fdf L date_range keyword sources show_only_alerts df = Inr view"
  shows "\<exists>keep. mask L date_range keyword sources show_only_alerts df = Inr keep \<and>
           set (rows view) = set (filter keep (rows df))"
proof -
  from assms(2) obtain keep where
    keep: "mask L date_range keyword sources show_only_alerts df = Inr keep"
    and view: "view = sort_values (sort_rows L) ''published'' True
                        (df\<lparr>rows := filter keep (rows df)\<rparr>)"
    by (auto simp: fdf_def split: sum.splits)
  have "set (rows view) = set (filter keep (rows df))"
    unfolding view sort_values_def using sort_contract_set [OF assms(1)] by auto
  with keep show ?thesis by blast
qed

lemma mask_keyword:
  assumes "mask L date_range keyword sources show_only_alerts df = Inr keep"
    and "mask L date_range [] sources show_only_alerts df = Inr keep0"
    and "keyword \<noteq> []"
  shows "\<exists>found. re_compile L keyword = Inr found \<and>
           (\<forall>r. keep r = (keep0 r \<and> str_contains found (r ''keyword_hint'')))"
  using assms
  by (auto simp: mask_def keyword_mask_def split: sum.splits)

lemma compile_a_c:
  "sample_re_compile ''a.c'' = Inr (re_search [Lit CHR ''a'', AnyChar, Lit CHR ''c''])"
  by (simp add: sample_re_compile_def is_special_def)

lemma search_samples:
  "re_search [Lit CHR ''a'', AnyChar, Lit CHR ''c''] ''abc''"
  "\<not> re_search [Lit CHR ''a'', AnyChar, Lit CHR ''c''] ''rates rise''"
  "\<not> has_substring ''abc'' ''a.c''"
  by simp_all

lemma sample_fdf_regex:
  "fdf sample_library (Dates [19723, 19724]) ''a.c'' [''wire'', ''blog''] False sample_df
     = Inr \<lparr>columns = empty_frame_columns @ [''date'', ''keyword_hint''],
            rows = [normalized sample_library item2 (Some (Finite (- 0.6)))
                      (Some (19723 * ns_per_day + 43200 * 1000000000))]\<rparr>"
  by (simp add: fdf_def mask_def range_start_def range_end_def keyword_mask_def
      sample_library_fields compile_a_c str_contains_def search_samples lower_cell_def
      fillna_def lower_samples sample_df_def normalized_cells item_cells cell_le_def isin_def
      sort_values_def insertion_sort_def notna_def cell_key_def time_cell_def dt_date_def
      ns_per_day_def)

text \<open>
  C5, as the code has it. A keyword that is not empty is compiled as a regular expression,
  and the filter keeps, of the items that pass the other filters, exactly those in whose
  \<open>keyword_hint\<close> the compiled expression is found; a keyword the engine rejects ends the
  run. Whether the keyword is a literal substring of the hint plays no part.
\<close>

theorem keyword_filter_is_regex_search:
  assumes "sort_contract (sort_rows L)"
    and "keyword \<noteq> []"
    and "fdf L date_range [] sources show_only_alerts df = Inr unfiltered"
  shows "(\<forall>e. re_compile L keyword = Inl e \<longrightarrow>
            fdf L date_range keyword sources show_only_alerts df = Inl e) \<and>
         (\<forall>found. re_compile L keyword = Inr found \<longrightarrow>
            (\<exists>view. fdf L date_range keyword sources show_only_alerts df = Inr view \<and>
               set (rows view)
                 = {r \<in> set (rows unfiltered). str_contains found (r ''keyword_hint'')}))"
proof (intro conjI allI impI)
  from fdf_set [OF assms(1) assms(3)] obtain keep0 where
    keep0: "mask L date_range [] sources show_only_alerts df = Inr keep0"
    and all: "set (rows unfiltered) = set (filter keep0 (rows df))"
    by blast
  {
    fix e
    assume "re_compile L keyword = Inl e"
    with keep0 assms(2) show "fdf L date_range keyword sources show_only_alerts df = Inl e"
      by (auto simp: fdf_def mask_def keyword_mask_def split: sum.splits)
  }
  {
    fix found
    assume found: "re_compile L keyword = Inr found"
    with keep0 assms(2) obtain keep where
      keep: "mask L date_range keyword sources show_only_alerts df = Inr keep"
      by (auto simp: mask_def keyword_mask_def split: sum.splits)
    then obtain view where
      view: "fdf L date_range keyword sources show_only_alerts df = Inr view"
      by (auto simp: fdf_def)
    from fdf_set [OF assms(1) view] keep have
      rs: "set (rows view) = set (filter keep (rows df))"
      by auto
    from mask_keyword [OF keep keep0 assms(2)] found have
      "\<forall>r. keep r = (keep0 r \<and> str_contains found (r ''keyword_hint''))"
      by auto
    with rs all have
      "set (rows view) = {r \<in> set (rows unfiltered). str_contains found (r ''keyword_hint'')}"
      by auto
    with view show "\<exists>view. fdf L date_range keyword sources show_only_alerts df = Inr view \<and>
        set (rows view) = {r \<in> set (rows unfiltered). str_contains found (r ''keyword_hint'')}"
      by blast
  }
qed

theorem keyword_filter_is_regex_search_witness:
  "\<exists>found view.
     re_compile sample_library (keyword_of sample_library ''A.C '') = Inr found \<and>
     fdf sample_library (Dates [19723, 19724]) (keyword_of sample_library ''A.C '')
       [''wire'', ''blog''] False sample_df = Inr view \<and>
     rows view = [normalized sample_library item2 (Some (Finite (- 0.6)))
                    (Some (19723 * ns_per_day + 43200 * 1000000000))] \<and>
     set (rows view) = {r \<in> set (rows sample_view). str_contains found (r ''keyword_hint'')} \<and>
     (\<exists>r \<in> set (rows view). r ''keyword_hint'' = Text ''abc'' \<and> found ''abc'' \<and>
        \<not> has_substring ''abc'' ''a.c'' \<and> \<not> keyword_spec ''a.c'' r)"
proof -
  let ?row = "normalized sample_library item2 (Some (Finite (- 0.6)))
                (Some (19723 * ns_per_day + 43200 * 1000000000))"
  have c: "re_compile sample_library ''a.c''
             = Inr (re_search [Lit CHR ''a'', AnyChar, Lit CHR ''c''])"
    by (simp add: sample_library_fields compile_a_c)
  have ne: "''a.c'' \<noteq> []"
    by simp
  from keyword_filter_is_regex_search [of sample_library "''a.c''" "Dates [19723, 19724]"
      "[''wire'', ''blog'']" False sample_df sample_view,
      OF library_contractD(3) [OF sample_library_contract] ne sample_fdf] c
  obtain view where
    view: "fdf sample_library (Dates [19723, 19724]) ''a.c'' [''wire'', ''blog''] False sample_df
             = Inr view"
    and rs: "set (rows view)
               = {r \<in> set (rows sample_view).
                    str_contains (re_search [Lit CHR ''a'', AnyChar, Lit CHR ''c''])
                      (r ''keyword_hint'')}"
    by blast
  from view have rows: "rows view = [?row]"
    unfolding sample_fdf_regex by auto
  have hint: "?row ''keyword_hint'' = Text ''abc''"
    by (simp add: normalized_cells sample_hints)
  have spec: "\<not> keyword_spec ''a.c'' ?row"
    unfolding keyword_spec_def hint by (simp add: search_samples)
  show ?thesis
    unfolding sample_keywords
    using c view rows rs hint spec search_samples by auto
qed

subsection \<open>The daily series of the forecast\<close>

lemma day_scores_triples:
  "day_scores (map (\<lambda>(r, n, t). t) xs) (map (\<lambda>(r, n, t). n) xs)
     = concat (map (\<lambda>(r, n, t). case t of
                                     None \<Rightarrow> []
                                   | Some t' \<Rightarrow>
                                       (case n of None \<Rightarrow> []
                                        | Some x \<Rightarrow> [(t' div ns_per_day, x)])) xs)"
  unfolding day_scores_def by (induction xs) auto

lemma keys_dated:
  "List.map_filter saved_day
     (map (\<lambda>(r, n, t). dated r n t) (filter (\<lambda>(r, n, t). n \<noteq> None \<and> t \<noteq> None) xs))
     = map fst (day_scores (map (\<lambda>(r, n, t). t) xs) (map (\<lambda>(r, n, t). n) xs))"
  unfolding day_scores_triples
  by (induction xs)
    (auto simp: map_filter_simps saved_day_def dated_def dt_date_def time_cell_def
      split: option.splits)

lemma vals_dated:
  "floats ''scores''
     (filter (\<lambda>r. saved_day r = Some d)
        (map (\<lambda>(r, n, t). dated r n t) (filter (\<lambda>(r, n, t). n \<noteq> None \<and> t \<noteq> None) xs)))
     = map snd (filter (\<lambda>p. fst p = d)
         (day_scores (map (\<lambda>(r, n, t). t) xs) (map (\<lambda>(r, n, t). n) xs)))"
  unfolding day_scores_triples
  by (induction xs)
    (auto simp: floats_def saved_day_def dated_def dt_date_def time_cell_def float_cell_def
      split: option.splits)

lemma groupby_dated:
  "groupby_mean L saved_day ''scores''
     (map (\<lambda>(r, n, t). dated r n t) (filter (\<lambda>(r, n, t). n \<noteq> None \<and> t \<noteq> None) xs))
     = daily_aggregate L (day_scores (map (\<lambda>(r, n, t). t) xs) (map (\<lambda>(r, n, t). n) xs))"
  unfolding groupby_mean_def daily_aggregate_def keys_dated vals_dated ..

lemma zip3_columns:
  assumes "length ns = length rs" and "length ts = length rs"
  shows "map (\<lambda>(r, n, t). t) (zip rs (zip ns ts)) = ts"
    and "map (\<lambda>(r, n, t). n) (zip rs (zip ns ts)) = ns"
  by (rule nth_equalityI; simp add: assms)+

lemma daily_normal_form:
  assumes lc: "library_contract L"
    and csv: "fs path = Some csv"
    and cols: "''saved_at'' \<in> set (columns csv)" "''scores'' \<in> set (columns csv)"
    and ts: "to_datetime L (column ''saved_at'' csv) = Inr ts"
  shows "daily L fs path
           = Inr (daily_aggregate L (day_scores ts (to_numeric L (column ''scores'' csv))))"
proof -
  define n where "n = length (rows csv)"
  define ns where "ns = to_numeric L (column ''scores'' csv)"
  define df1 where "df1 = set_column ''saved_at'' (map time_cell ts) csv"
  define df2 where "df2 = set_column ''scores'' (map float_cell ns) df1"
  have len_ns: "length ns = n"
    unfolding ns_def n_def using library_contractD(1) [OF lc] by (simp add: length_column)
  have len_ts: "length ts = n"
    unfolding n_def using library_contractD(2) [OF lc ts] by (simp add: length_column)
  have l1: "length (map time_cell ts) = length (rows csv)"
    using len_ts by (simp add: n_def)
  have n1: "length (rows df1) = n"
    unfolding df1_def using length_set_column [OF l1] by (simp add: n_def)
  have s1: "column ''scores'' df1 = column ''scores'' csv"
    unfolding df1_def by (rule column_set_column_other [OF l1]) simp
  have c1: "columns df1 = columns csv"
    unfolding df1_def using cols by (simp add: columns_set_column)
  have l2: "length (map float_cell ns) = length (rows df1)"
    using len_ns n1 by simp
  have n2: "length (rows df2) = n"
    unfolding df2_def using length_set_column [OF l2] n1 by simp
  have c2: "columns df2 = columns csv"
    unfolding df2_def using cols c1 by (simp add: columns_set_column)
  have row2: "rows df2 ! i = dated (rows csv ! i) (ns ! i) (ts ! i)" if i: "i < n" for i
  proof -
    have a: "rows df1 ! i = (rows csv ! i)(''saved_at'' := time_cell (ts ! i))"
      unfolding df1_def using nth_set_column [OF l1, of i] i len_ts by (simp add: n_def)
    have b: "rows df2 ! i = (rows df1 ! i)(''scores'' := float_cell (ns ! i))"
      unfolding df2_def using nth_set_column [OF l2, of i] i n1 len_ns by simp
    show ?thesis
      unfolding b a dated_def by simp
  qed
  have rows2: "rows df2 = map (\<lambda>(r, n, t). dated r n t) (zip (rows csv) (zip ns ts))"
    unfolding zip3_nth [OF len_ns [unfolded n_def] len_ts [unfolded n_def]]
    by (rule nth_equalityI) (simp_all add: n2 row2 n_def)
  have p1: "notna (dated r m t ''saved_at'') = (t \<noteq> None)" for r m t
    by (auto simp: dated_def notna_def time_cell_def split: option.splits)
  have p2: "notna (dated r m t ''scores'') = (m \<noteq> None)" for r m t
    by (auto simp: dated_def notna_def float_cell_def split: option.splits)
  have kept: "filter (\<lambda>r. \<forall>c \<in> set [''saved_at'', ''scores'']. notna (r c)) (rows df2)
                = map (\<lambda>(r, n, t). dated r n t)
                    (filter (\<lambda>(r, n, t). n \<noteq> None \<and> t \<noteq> None) (zip (rows csv) (zip ns ts)))"
    unfolding rows2 filter_map comp_def
    by (rule arg_cong [where f = "map (\<lambda>(r, n, t). dated r n t)"],
        rule filter_cong [OF refl]) (auto simp: p1 p2)
  have in2: "''saved_at'' \<in> set (columns df2)" "''scores'' \<in> set (columns df2)"
    unfolding c2 using cols by auto
  have drop: "dropna [''saved_at'', ''scores''] df2
                = Inr (df2\<lparr>rows := map (\<lambda>(r, n, t). dated r n t)
                                      (filter (\<lambda>(r, n, t). n \<noteq> None \<and> t \<noteq> None)
                                         (zip (rows csv) (zip ns ts)))\<rparr>)"
    using in2 kept by (simp add: dropna_def)
  have rd: "read_csv fs path = Inr csv"
    using csv cols(1) by (auto simp: read_csv_def)
  have in1: "''scores'' \<in> set (columns df1)"
    unfolding c1 by (rule cols(2))
  have "daily L fs path
          = Inr (groupby_mean L saved_day ''scores''
                   (map (\<lambda>(r, n, t). dated r n t)
                      (filter (\<lambda>(r, n, t). n \<noteq> None \<and> t \<noteq> None)
                         (zip (rows csv) (zip ns ts)))))"
    unfolding daily_def rd using cols(1) in1
    by (simp add: ts Let_def df1_def [symmetric] s1 ns_def [symmetric] df2_def [symmetric] drop)
  then have "daily L fs path = Inr (daily_aggregate L (day_scores ts ns))"
    unfolding groupby_dated zip3_columns [OF len_ns [unfolded n_def] len_ts [unfolded n_def]] .
  then show ?thesis
    unfolding ns_def .
qed

lemma sample_saved_at:
  "to_datetime sample_library (column ''saved_at'' sample_csv)
     = Inr [Some (19727 * ns_per_day), Some (19727 * ns_per_day), Some (19727 * ns_per_day),
            Some (19727 * ns_per_day)]"
  "to_datetime sample_library (column ''published'' sample_csv)
     = Inr [Some (19724 * ns_per_day), Some (19723 * ns_per_day + 43200 * 1000000000),
            Some (19723 * ns_per_day), None]"
  "to_numeric sample_library (column ''scores'' sample_csv)
     = [Some (Finite 0.6), Some (Finite (- 0.6)), None, Some (Finite 0.1)]"
  unfolding sample_columns sample_library_fields by (simp_all add: sample_parsers)

lemma sample_day_scores:
  "day_scores [Some (19727 * ns_per_day), Some (19727 * ns_per_day), Some (19727 * ns_per_day),
               Some (19727 * ns_per_day)]
     [Some (Finite 0.6), Some (Finite (- 0.6)), None, Some (Finite 0.1)]
     = [(19727, Finite 0.6), (19727, Finite (- 0.6)), (19727, Finite 0.1)]"
  "day_scores [Some (19724 * ns_per_day), Some (19723 * ns_per_day + 43200 * 1000000000),
               Some (19723 * ns_per_day), None]
     [Some (Finite 0.6), Some (Finite (- 0.6)), None, Some (Finite 0.1)]
     = [(19724, Finite 0.6), (19723, Finite (- 0.6))]"
  by (simp_all add: day_scores_def ns_per_day_def)

lemma sample_aggregates:
  "daily_aggregate sample_library
     [(19727, Finite 0.6), (19727, Finite (- 0.6)), (19727, Finite 0.1)]
     = [(19727, Float (Finite (1 / 30)))]"
  "daily_aggregate sample_library [(19724, Finite 0.6), (19723, Finite (- 0.6))]
     = [(19723, Float (Finite (- 0.6))), (19724, Float (Finite 0.6))]"
  by (simp_all add: daily_aggregate_def sample_library_fields sample_mean_def finite_values_def
      float_cell_def)

lemma sample_daily:
  "daily sample_library sample_fs CSV_FILE = Inr [(19727, Float (Finite (1 / 30)))]"
  unfolding daily_normal_form [of sample_library sample_fs CSV_FILE sample_csv,
      OF sample_library_contract sample_csv_facts(1) sample_csv_facts(5) sample_csv_facts(3)
        sample_saved_at(1)]
    sample_saved_at(3) sample_day_scores(1) sample_aggregates(1) ..

text \<open>
  C9, as the code has it. The daily series the forecast is fitted to is keyed by the
  calendar date of each item's \<open>saved_at\<close> timestamp: for every file with the two columns
  the script reads, whose \<open>saved_at\<close> column the library coerces to the timestamps \<open>ts\<close>, it
  has one entry per day of \<open>ts\<close>, days ascending, with the mean of the scores of the rows
  saved on that day. The \<open>published\<close> column is not read.
\<close>

theorem daily_keyed_by_saved_at:
  assumes "library_contract L"
    and "fs path = Some csv"
    and "''saved_at'' \<in> set (columns csv)"
    and "''scores'' \<in> set (columns csv)"
    and "to_datetime L (column ''saved_at'' csv) = Inr ts"
  shows "daily L fs path
           = Inr (daily_aggregate L (day_scores ts (to_numeric L (column ''scores'' csv))))"
  using assms by (rule daily_normal_form)

theorem daily_keyed_by_saved_at_witness:
  "daily sample_library sample_fs CSV_FILE
     = Inr (daily_aggregate sample_library
              (day_scores [Some (19727 * ns_per_day), Some (19727 * ns_per_day),
                           Some (19727 * ns_per_day), Some (19727 * ns_per_day)]
                 [Some (Finite 0.6), Some (Finite (- 0.6)), None, Some (Finite 0.1)])) \<and>
   daily sample_library sample_fs CSV_FILE = Inr [(19727, Float (Finite (1 / 30)))]"
  using daily_keyed_by_saved_at [of sample_library sample_fs CSV_FILE sample_csv,
      OF sample_library_contract sample_csv_facts(1) sample_csv_facts(5) sample_csv_facts(3)
        sample_saved_at(1)]
  unfolding sample_saved_at(3) sample_day_scores(1) sample_aggregates(1)
  by simp

text \<open>
  C9 as stated fails: on the sample file, whose items were published on 1 and 2 January 2024
  and saved on 5 January, the series has the one entry of 5 January and is not the aggregate
  by day of publication.
\<close>

theorem daily_not_keyed_by_published:
  "daily sample_library sample_fs CSV_FILE = Inr [(19727, Float (Finite (1 / 30)))] \<and>
   daily_aggregate sample_library
     (day_scores [Some (19724 * ns_per_day), Some (19723 * ns_per_day + 43200 * 1000000000),
                  Some (19723 * ns_per_day), None]
        [Some (Finite 0.6), Some (Finite (- 0.6)), None, Some (Finite 0.1)])
     = [(19723, Float (Finite (- 0.6))), (19724, Float (Finite 0.6))] \<and>
   to_datetime sample_library (column ''published'' sample_csv)
     = Inr [Some (19724 * ns_per_day), Some (19723 * ns_per_day + 43200 * 1000000000),
            Some (19723 * ns_per_day), None] \<and>
   daily sample_library sample_fs CSV_FILE
     \<noteq> Inr (daily_aggregate sample_library
              (day_scores [Some (19724 * ns_per_day),
                           Some (19723 * ns_per_day + 43200 * 1000000000),
                           Some (19723 * ns_per_day), None]
                 (to_numeric sample_library (column ''scores'' sample_csv))))"
proof -
  have a: "daily_aggregate sample_library
             (day_scores [Some (19724 * ns_per_day),
                          Some (19723 * ns_per_day + 43200 * 1000000000),
                          Some (19723 * ns_per_day), None]
                [Some (Finite 0.6), Some (Finite (- 0.6)), None, Some (Finite 0.1)])
             = [(19723, Float (Finite (- 0.6))), (19724, Float (Finite 0.6))]"
    unfolding sample_day_scores(2) sample_aggregates(2) ..
  have b: "daily sample_library sample_fs CSV_FILE
             \<noteq> Inr (daily_aggregate sample_library
                      (day_scores [Some (19724 * ns_per_day),
                                   Some (19723 * ns_per_day + 43200 * 1000000000),
                                   Some (19723 * ns_per_day), None]
                         (to_numeric sample_library (column ''scores'' sample_csv))))"
    unfolding sample_daily sample_saved_at(3) a by simp
  show ?thesis
    by (intro conjI sample_daily a sample_saved_at(2) b)
qed

subsection \<open>The forecast on a short history\<close>





subsection \<open>The top sources\<close>
























end
